theory Spec2Isabelle
  imports Complex_Main
begin

section \<open>Numbers, optional values and DOM references\<close>

text \<open>
  The components compute with JavaScript numbers. They are modelled as real numbers:
  arithmetic is exact, and the values NaN and Infinity are outside the model. Every
  comparison, \<open>Math.min\<close>, \<open>Math.max\<close> and \<open>Math.abs\<close> is the one of the reals.
  \<open>Math.round\<close> rounds a half towards plus infinity, so \<open>Math.round(-2.5)\<close>
  is \<open>-2\<close> and \<open>Math.round(2.5)\<close> is \<open>3\<close>.
\<close>

definition Math_round :: "real \<Rightarrow> real" where
  "Math_round x = of_int \<lfloor>x + 1 / 2\<rfloor>"

text \<open>
  \<open>e || 0\<close> on a number that may be \<open>undefined\<close>: \<open>undefined\<close> and \<open>0\<close> are
  falsy and give the right operand, every other number is itself.
\<close>

definition or0 :: "real option \<Rightarrow> real" where
  "or0 v = (case v of None \<Rightarrow> 0 | Some x \<Rightarrow> if x = 0 then 0 else x)"

text \<open>
  What a reference to a DOM node evaluates to: \<open>undefined\<close>, \<open>null\<close>, or an element,
  named by a number. \<open>!==\<close> on such values is inequality of the datatype.
\<close>

datatype ref_value = Undefined | Null | Elem nat

section \<open>StickyProvider: the shared offset\<close>

record StickyOffset =
  so_top :: real
  so_height :: real

text \<open>The field initialiser of \<open>StickyScrollUpProvider\<close>.\<close>

definition stickyOffset_init :: StickyOffset where
  "stickyOffset_init = \<lparr>so_top = 0, so_height = 0\<rparr>"

text \<open>
  \<open>updateStickyOffset\<close> writes both fields of the provider's offset object; the model
  takes the object and returns it updated.
\<close>

definition updateStickyOffset :: "StickyOffset \<Rightarrow> real \<Rightarrow> real \<Rightarrow> StickyOffset" where
  "updateStickyOffset this stickyOffset height =
     (let this1 = this\<lparr>so_top := min stickyOffset height\<rparr>
      in this1\<lparr>so_height := height\<rparr>)"

section \<open>Sticky: data\<close>

text \<open>
  The fields of \<open>IRect\<close>, \<open>IScroll\<close> and \<open>IDimensions\<close> (types of the viewport
  library) that the component reads.
\<close>

record IRect =
  r_top :: real
  r_bottom :: real
  r_height :: real

record IScroll =
  y :: real
  yTurn :: real
  yDTurn :: real
  isScrollingUp :: bool
  isScrollingDown :: bool

record IDimensions =
  dim_height :: real

datatype OverflowScrollType = Flow | End

datatype Position = Absolute | Fixed

text \<open>
  The position styles the component produces. \<open>None\<close> for \<open>willChange\<close> and
  \<open>transform\<close> is \<open>undefined\<close>.
\<close>

record IPositionStyles =
  position :: Position
  ps_top :: real
  willChange :: "string option"
  transform :: "string option"

text \<open>
  The props the decision reads. \<open>container\<close> is \<open>None\<close> when the prop is not given,
  and otherwise holds the \<open>current\<close> value of the reference.
\<close>

record IProps =
  container :: "ref_value option"
  stickyOffset :: StickyOffset
  defaultOffsetTop :: real
  overflowScroll :: OverflowScrollType
  disableHardwareAcceleration :: bool
  experimentalNative :: bool

text \<open>A DOM element, as far as the component looks at it: its parent element, or null.\<close>

record HTMLElement =
  parentElement :: "nat option"

text \<open>
  One instance of the component: its props, the element its placeholder reference
  points to (\<open>None\<close> is \<open>null\<close>), and the private flag of the one-time warning.
\<close>

record Sticky =
  props :: IProps
  placeholderRef :: "HTMLElement option"
  nativeStickyThrewOnce :: bool

text \<open>
  The constants of the module \<open>utils\<close> and of the build the component reads; they are
  parameters of the model. \<open>development\<close> is \<open>process.env.NODE_ENV !== 'production'\<close>.
\<close>

record Env =
  supportsWillChange :: bool
  supportsPositionSticky :: bool
  development :: bool

datatype error = TypeError

section \<open>Sticky: the predicates\<close>

definition offsetTop :: "Sticky \<Rightarrow> real" where
  "offsetTop this = so_top (stickyOffset (props this)) + defaultOffsetTop (props this)"

definition hasContainer :: "Sticky \<Rightarrow> bool" where
  "hasContainer this = (container (props this) \<noteq> None)"

text \<open>\<open>rect?.top\<close> is \<open>map_option r_top rect\<close>: \<open>undefined\<close> for an absent rectangle.\<close>

definition isNearToViewport :: "IRect option \<Rightarrow> bool" where
  "isNearToViewport rect =
     (let padding = 700
      in or0 (map_option r_top rect) - padding < 0 \<and> or0 (map_option r_bottom rect) + padding > 0)"

text \<open>
  \<open>calcHeightDifference\<close> guards against absent dimensions; its callers pass the
  dimensions they were given.
\<close>

definition calcHeightDifference :: "IRect option \<Rightarrow> IDimensions option \<Rightarrow> real" where
  "calcHeightDifference rectSticky dimensions =
     (case dimensions of
        None \<Rightarrow> 0
      | Some d \<Rightarrow> max 0 (Math_round (or0 (map_option r_height rectSticky)) - dim_height d))"

definition getOverflowScrollType :: "Sticky \<Rightarrow> IRect option \<Rightarrow> IDimensions \<Rightarrow> OverflowScrollType" where
  "getOverflowScrollType this rectSticky dimensions =
     (if overflowScroll (props this) = Flow \<and> calcHeightDifference rectSticky (Some dimensions) > 0
      then Flow else End)"

definition isSticky :: "Sticky \<Rightarrow> IRect option \<Rightarrow> IRect option \<Rightarrow> IDimensions \<Rightarrow> bool" where
  "isSticky this rect containerRect dimensions =
     (if \<not> hasContainer this
      then Math_round (or0 (map_option r_top containerRect)) \<le> offsetTop this
      else if Math_round (or0 (map_option r_top containerRect)) > offsetTop this then False
      else
        let height =
          (if overflowScroll (props this) = Flow
           then min (or0 (map_option r_height rect)) (dim_height dimensions)
           else or0 (map_option r_height rect))
        in if Math_round (or0 (map_option r_bottom containerRect)) - offsetTop this < height
           then False else True)"

definition isDockedToBottom :: "Sticky \<Rightarrow> IRect option \<Rightarrow> IRect option \<Rightarrow> IDimensions \<Rightarrow> bool" where
  "isDockedToBottom this rect containerRect dimensions =
     (case rect of
        None \<Rightarrow> False
      | Some r \<Rightarrow>
        (case containerRect of
           None \<Rightarrow> False
         | Some cr \<Rightarrow>
           if \<not> hasContainer this then False
           else if r_height r > r_height cr then False
           else
             let height =
               (if overflowScroll (props this) = Flow
                then min (r_height r) (dim_height dimensions)
                else r_height r)
             in if Math_round (r_bottom cr) - offsetTop this \<ge> height then False else True))"

section \<open>Sticky: the native fallback\<close>

definition nativeStickyWarning :: string where
  "nativeStickyWarning =
     ''react-stickup: a sticky element was used with property `experimentalNative` but its `container` is not the parent the sticky component. As the native sticky implementation always uses its parent element as the container. This can lead to unexpected results. It is therefore recommended to change the DOM structure so that the container is a direct parent of the Sticky component or to remove the `experimentalNative` property.''"

text \<open>
  The two sides of the structural comparison:
  \<open>this.placeholderRef && this.placeholderRef.current?.parentElement\<close> (the reference
  object itself always exists) and \<open>this.props.container && this.props.container.current\<close>.
\<close>

definition placeholderParent :: "Sticky \<Rightarrow> ref_value" where
  "placeholderParent this =
     (case placeholderRef this of
        None \<Rightarrow> Undefined
      | Some el \<Rightarrow> (case parentElement el of None \<Rightarrow> Null | Some e \<Rightarrow> Elem e))"

definition containerCurrent :: "Sticky \<Rightarrow> ref_value" where
  "containerCurrent this = (case container (props this) of None \<Rightarrow> Undefined | Some v \<Rightarrow> v)"

text \<open>
  \<open>shouldUseNativeSticky\<close> returns its decision, the instance (whose flag it may have
  set) and the messages it passed to \<open>console.warn\<close>.
\<close>

definition shouldUseNativeSticky ::
  "Env \<Rightarrow> Sticky \<Rightarrow> OverflowScrollType \<Rightarrow> bool \<times> Sticky \<times> string list" where
  "shouldUseNativeSticky env this appliedOverflowScroll =
     (if \<not> experimentalNative (props this) \<or> \<not> supportsPositionSticky env
         \<or> appliedOverflowScroll \<noteq> End \<or> so_top (stickyOffset (props this)) \<noteq> 0
      then (False, this, [])
      else if development env \<and> \<not> nativeStickyThrewOnce this
              \<and> placeholderParent this \<noteq> containerCurrent this
      then (True, this\<lparr>nativeStickyThrewOnce := True\<rparr>, [nativeStickyWarning])
      else (True, this, []))"

text \<open>
  A freshly constructed instance, and the life of one instance as a sequence of calls of
  \<open>shouldUseNativeSticky\<close>: before each call the props and the placeholder element may
  have changed, the private flag is kept. The result collects every message warned.
\<close>

definition Sticky_new :: "IProps \<Rightarrow> HTMLElement option \<Rightarrow> Sticky" where
  "Sticky_new p el = \<lparr>props = p, placeholderRef = el, nativeStickyThrewOnce = False\<rparr>"

fun decideAll ::
  "Env \<Rightarrow> Sticky \<Rightarrow> (IProps \<times> HTMLElement option \<times> OverflowScrollType) list
     \<Rightarrow> string list \<times> Sticky" where
  "decideAll env this [] = ([], this)"
| "decideAll env this ((p, el, a) # cs) =
     (case shouldUseNativeSticky env (this\<lparr>props := p, placeholderRef := el\<rparr>) a of
        (r, this1, ws) \<Rightarrow>
          (case decideAll env this1 cs of (ws', this2) \<Rightarrow> (ws @ ws', this2)))"

section \<open>Sticky: the position styles\<close>

definition mkStyle :: "Position \<Rightarrow> real \<Rightarrow> IPositionStyles" where
  "mkStyle pos t = \<lparr>position = pos, ps_top = t, willChange = None, transform = None\<rparr>"

text \<open>
  The boolean constants of \<open>calcOverflowScrollFlowStickyStyles\<close>, for a present
  container rectangle.
\<close>

definition containerTopOffset :: "Sticky \<Rightarrow> IRect \<Rightarrow> IScroll \<Rightarrow> real" where
  "containerTopOffset this cr scroll =
     Math_round (r_top cr) + Math_round (y scroll) - so_height (stickyOffset (props this))"

definition isStickyBottomReached :: "IRect option \<Rightarrow> IDimensions \<Rightarrow> bool" where
  "isStickyBottomReached rectSticky dimensions =
     (Math_round (or0 (map_option r_bottom rectSticky)) \<le> dim_height dimensions)"

definition isContainerTopReached :: "Sticky \<Rightarrow> IRect \<Rightarrow> bool" where
  "isContainerTopReached this cr = (Math_round (r_top cr) < offsetTop this)"

definition isTurnWithinHeightOffset ::
  "Sticky \<Rightarrow> IRect option \<Rightarrow> IRect \<Rightarrow> IScroll \<Rightarrow> IDimensions \<Rightarrow> bool" where
  "isTurnWithinHeightOffset this rectSticky cr scroll dimensions =
     (Math_round (yTurn scroll) - calcHeightDifference rectSticky (Some dimensions)
        \<le> containerTopOffset this cr scroll)"

definition isTurnPointBeforeContainer :: "Sticky \<Rightarrow> IRect \<Rightarrow> IScroll \<Rightarrow> bool" where
  "isTurnPointBeforeContainer this cr scroll =
     (Math_round (yTurn scroll) < containerTopOffset this cr scroll)"

definition isTurnPointAfterContainer :: "Sticky \<Rightarrow> IRect \<Rightarrow> IScroll \<Rightarrow> bool" where
  "isTurnPointAfterContainer this cr scroll =
     (Math_round (yTurn scroll) > containerTopOffset this cr scroll + r_height cr)"

definition isTurnPointWithinContainer :: "Sticky \<Rightarrow> IRect \<Rightarrow> IScroll \<Rightarrow> bool" where
  "isTurnPointWithinContainer this cr scroll =
     (\<not> (isTurnPointBeforeContainer this cr scroll \<or> isTurnPointAfterContainer this cr scroll))"

definition isStickyTopReached :: "Sticky \<Rightarrow> IRect option \<Rightarrow> bool" where
  "isStickyTopReached this rectSticky =
     (Math_round (or0 (map_option r_top rectSticky)) \<ge> offsetTop this)"

text \<open>The conditions of the three \<open>if\<close> statements, in the order of the source.\<close>

definition flowResets ::
  "Sticky \<Rightarrow> IRect option \<Rightarrow> IRect \<Rightarrow> IScroll \<Rightarrow> IDimensions \<Rightarrow> bool" where
  "flowResets this rectSticky cr scroll dimensions =
     ((isScrollingDown scroll \<and> \<not> isStickyBottomReached rectSticky dimensions
         \<and> \<not> isTurnPointWithinContainer this cr scroll)
      \<or> (isScrollingUp scroll \<and> \<not> isContainerTopReached this cr)
      \<or> (isScrollingUp scroll \<and> isTurnWithinHeightOffset this rectSticky cr scroll dimensions
         \<and> \<not> isTurnPointWithinContainer this cr scroll))"

definition flowPinsBottom :: "IRect option \<Rightarrow> IScroll \<Rightarrow> IDimensions \<Rightarrow> bool" where
  "flowPinsBottom rectSticky scroll dimensions =
     (isScrollingDown scroll \<and> isStickyBottomReached rectSticky dimensions)"

definition flowTracks :: "Sticky \<Rightarrow> IRect option \<Rightarrow> IRect \<Rightarrow> IScroll \<Rightarrow> bool" where
  "flowTracks this rectSticky cr scroll =
     ((isScrollingDown scroll \<and> isTurnPointWithinContainer this cr scroll)
      \<or> (isScrollingUp scroll \<and> \<not> isTurnPointBeforeContainer this cr scroll
         \<and> \<not> isStickyTopReached this rectSticky))"

text \<open>
  Reading \<open>containerRect.top\<close> of an absent container rectangle throws a TypeError; it
  is the first statement of the function.
\<close>

definition calcOverflowScrollFlowStickyStyles ::
  "Sticky \<Rightarrow> IRect option \<Rightarrow> IRect option \<Rightarrow> IScroll \<Rightarrow> IDimensions
     \<Rightarrow> error + IPositionStyles" where
  "calcOverflowScrollFlowStickyStyles this rectSticky containerRect scroll dimensions =
     (case containerRect of
        None \<Rightarrow> Inl TypeError
      | Some cr \<Rightarrow>
        let containerTop = Math_round (r_top cr);
            stickyTop = Math_round (or0 (map_option r_top rectSticky));
            scrollY = Math_round (y scroll);
            heightDiff = calcHeightDifference rectSticky (Some dimensions)
        in if flowResets this rectSticky cr scroll dimensions then Inr (mkStyle Absolute 0)
           else if flowPinsBottom rectSticky scroll dimensions then Inr (mkStyle Fixed (- heightDiff))
           else if flowTracks this rectSticky cr scroll
           then Inr (mkStyle Absolute \<bar>scrollY - stickyTop + (containerTop - scrollY)\<bar>)
           else Inr (mkStyle Fixed (offsetTop this)))"

definition calcPositionStyles ::
  "Sticky \<Rightarrow> IRect option \<Rightarrow> IRect option \<Rightarrow> IScroll \<Rightarrow> IDimensions
     \<Rightarrow> error + IPositionStyles" where
  "calcPositionStyles this rectSticky containerRect scroll dimensions =
     (if isSticky this rectSticky containerRect dimensions
      then
        if getOverflowScrollType this rectSticky dimensions = Flow
        then calcOverflowScrollFlowStickyStyles this rectSticky containerRect scroll dimensions
        else
          let stickyOffsetTop = so_top (stickyOffset (props this));
              stickyHeight = so_height (stickyOffset (props this));
              headIsFlexible = (stickyOffsetTop > 0 \<and> stickyOffsetTop < stickyHeight)
          in if headIsFlexible
             then (case containerRect of
                     None \<Rightarrow> Inl TypeError
                   | Some cr \<Rightarrow>
                     let relYTurn =
                           Math_round (yTurn scroll - y scroll + yDTurn scroll) - Math_round (r_top cr)
                     in Inr (mkStyle Absolute (relYTurn + offsetTop this)))
             else Inr (mkStyle Fixed (offsetTop this))
      else if isDockedToBottom this rectSticky containerRect dimensions
      then (case containerRect of
              None \<Rightarrow> Inl TypeError
            | Some cr \<Rightarrow> Inr (mkStyle Absolute (r_height cr - or0 (map_option r_height rectSticky))))
      else Inr (mkStyle Absolute 0))"

definition getStickyStyles ::
  "Env \<Rightarrow> Sticky \<Rightarrow> IRect option \<Rightarrow> IRect option \<Rightarrow> IScroll \<Rightarrow> IDimensions
     \<Rightarrow> error + IPositionStyles" where
  "getStickyStyles env this rect containerRect scroll dimensions =
     (case calcPositionStyles this rect containerRect scroll dimensions of
        Inl e \<Rightarrow> Inl e
      | Inr styles \<Rightarrow>
        if \<not> disableHardwareAcceleration (props this)
        then
          let shouldAccelerate = isNearToViewport rect
          in if supportsWillChange env
             then Inr (styles\<lparr>willChange := (if shouldAccelerate then Some ''position, top'' else None)\<rparr>)
             else Inr (styles\<lparr>transform := (if shouldAccelerate then Some ''translateZ(0)'' else None)\<rparr>)
        else Inr styles)"

section \<open>Inputs of the examples\<close>

text \<open>The \<open>defaultProps\<close> of the component, with no container given.\<close>

definition defaultProps :: IProps where
  "defaultProps =
     \<lparr>container = None, stickyOffset = \<lparr>so_top = 0, so_height = 0\<rparr>, defaultOffsetTop = 0,
      overflowScroll = End, disableHardwareAcceleration = False, experimentalNative = False\<rparr>"

text \<open>The rectangle an absent measurement is compared with.\<close>

definition zeroRect :: IRect where
  "zeroRect = \<lparr>r_top = 0, r_bottom = 0, r_height = 0\<rparr>"

definition mkRect :: "real \<Rightarrow> real \<Rightarrow> real \<Rightarrow> IRect" where
  "mkRect t b h = \<lparr>r_top = t, r_bottom = b, r_height = h\<rparr>"

definition mkScroll :: "real \<Rightarrow> real \<Rightarrow> real \<Rightarrow> bool \<Rightarrow> bool \<Rightarrow> IScroll" where
  "mkScroll sy syTurn syDTurn up down =
     \<lparr>y = sy, yTurn = syTurn, yDTurn = syDTurn, isScrollingUp = up, isScrollingDown = down\<rparr>"

text \<open>A browser with both features, running a development build.\<close>

definition devEnv :: Env where
  "devEnv = \<lparr>supportsWillChange = True, supportsPositionSticky = True, development = True\<rparr>"

section \<open>Evaluation and helper lemmas\<close>

lemmas eval_defs =
  Math_round_def or0_def offsetTop_def hasContainer_def isNearToViewport_def
  calcHeightDifference_def getOverflowScrollType_def isSticky_def isDockedToBottom_def
  Sticky_new_def defaultProps_def zeroRect_def mkRect_def mkScroll_def devEnv_def Let_def

text \<open>The styles read the instance through its props only.\<close>

lemma offsetTop_props:
  assumes "props this' = props this"
  shows "offsetTop this' = offsetTop this"
  unfolding offsetTop_def assms ..

lemma hasContainer_props:
  assumes "props this' = props this"
  shows "hasContainer this' = hasContainer this"
  unfolding hasContainer_def assms ..

lemma isSticky_props:
  assumes "props this' = props this"
  shows "isSticky this' rect containerRect dimensions = isSticky this rect containerRect dimensions"
  unfolding isSticky_def offsetTop_props [OF assms] hasContainer_props [OF assms] assms ..

lemma isDockedToBottom_props:
  assumes "props this' = props this"
  shows "isDockedToBottom this' rect containerRect dimensions
           = isDockedToBottom this rect containerRect dimensions"
  unfolding isDockedToBottom_def offsetTop_props [OF assms] hasContainer_props [OF assms] assms ..

lemma getOverflowScrollType_props:
  assumes "props this' = props this"
  shows "getOverflowScrollType this' rect dimensions = getOverflowScrollType this rect dimensions"
  unfolding getOverflowScrollType_def assms ..

lemma calcOverflowScrollFlowStickyStyles_props:
  assumes "props this' = props this"
  shows "calcOverflowScrollFlowStickyStyles this' rect containerRect scroll dimensions
           = calcOverflowScrollFlowStickyStyles this rect containerRect scroll dimensions"
  unfolding calcOverflowScrollFlowStickyStyles_def flowResets_def flowTracks_def
    isContainerTopReached_def isTurnWithinHeightOffset_def isTurnPointWithinContainer_def
    isTurnPointBeforeContainer_def isTurnPointAfterContainer_def isStickyTopReached_def
    containerTopOffset_def offsetTop_props [OF assms] assms ..

lemma calcPositionStyles_props:
  assumes "props this' = props this"
  shows "calcPositionStyles this' rect containerRect scroll dimensions
           = calcPositionStyles this rect containerRect scroll dimensions"
  unfolding calcPositionStyles_def isSticky_props [OF assms] isDockedToBottom_props [OF assms]
    getOverflowScrollType_props [OF assms] calcOverflowScrollFlowStickyStyles_props [OF assms]
    offsetTop_props [OF assms] assms ..

lemma getStickyStyles_props:
  assumes "props this' = props this"
  shows "getStickyStyles env this' rect containerRect scroll dimensions
           = getStickyStyles env this rect containerRect scroll dimensions"
  unfolding getStickyStyles_def calcPositionStyles_props [OF assms] assms ..

lemma shouldUseNativeSticky_props:
  "props (fst (snd (shouldUseNativeSticky env this a))) = props this"
  by (simp add: shouldUseNativeSticky_def)

text \<open>One call of the decision warns at most once, and not at all once the flag is set.\<close>

lemma shouldUseNativeSticky_warned:
  "nativeStickyThrewOnce this \<Longrightarrow> shouldUseNativeSticky env this a = (r, this1, ws)
     \<Longrightarrow> ws = [] \<and> nativeStickyThrewOnce this1"
  by (auto simp add: shouldUseNativeSticky_def split: if_splits)

lemma shouldUseNativeSticky_cases:
  "shouldUseNativeSticky env this a = (r, this1, ws)
     \<Longrightarrow> ws = [] \<or> (ws = [nativeStickyWarning] \<and> nativeStickyThrewOnce this1)"
  by (auto simp add: shouldUseNativeSticky_def split: if_splits)

lemma decideAll_warned:
  "nativeStickyThrewOnce this
     \<Longrightarrow> fst (decideAll env this cs) = [] \<and> nativeStickyThrewOnce (snd (decideAll env this cs))"
proof (induction cs arbitrary: this)
  case Nil
  then show ?case by simp
next
  case (Cons c cs)
  obtain p el a where c: "c = (p, el, a)" by (cases c)
  obtain r this1 ws
    where s: "shouldUseNativeSticky env (this\<lparr>props := p, placeholderRef := el\<rparr>) a = (r, this1, ws)"
    by (cases "shouldUseNativeSticky env (this\<lparr>props := p, placeholderRef := el\<rparr>) a")
  from Cons.prems have "nativeStickyThrewOnce (this\<lparr>props := p, placeholderRef := el\<rparr>)"
    by simp
  from shouldUseNativeSticky_warned [OF this s]
  have w: "ws = []" and f: "nativeStickyThrewOnce this1" by simp_all
  from Cons.IH [OF f] show ?case
    by (simp add: c s w split_beta)
qed

lemma decideAll_at_most_once:
  "length (fst (decideAll env this cs)) \<le> 1
   \<and> set (fst (decideAll env this cs)) \<subseteq> {nativeStickyWarning}
   \<and> (fst (decideAll env this cs) \<noteq> [] \<longrightarrow> nativeStickyThrewOnce (snd (decideAll env this cs)))"
proof (induction cs arbitrary: this)
  case Nil
  then show ?case by simp
next
  case (Cons c cs)
  obtain p el a where c: "c = (p, el, a)" by (cases c)
  obtain r this1 ws
    where s: "shouldUseNativeSticky env (this\<lparr>props := p, placeholderRef := el\<rparr>) a = (r, this1, ws)"
    by (cases "shouldUseNativeSticky env (this\<lparr>props := p, placeholderRef := el\<rparr>) a")
  from shouldUseNativeSticky_cases [OF s]
  consider "ws = []" | "ws = [nativeStickyWarning]" "nativeStickyThrewOnce this1"
    by blast
  then show ?case
  proof cases
    case 1
    with Cons.IH [of this1] show ?thesis by (simp add: c s split_beta)
  next
    case 2
    with decideAll_warned [of this1 env cs] show ?thesis by (simp add: c s split_beta)
  qed
qed

lemma decideAll_append:
  "decideAll env this (cs @ cs') =
     (fst (decideAll env this cs) @ fst (decideAll env (snd (decideAll env this cs)) cs'),
      snd (decideAll env (snd (decideAll env this cs)) cs'))"
proof (induction cs arbitrary: this)
  case Nil
  then show ?case by simp
next
  case (Cons c cs)
  obtain p el a where c: "c = (p, el, a)" by (cases c)
  show ?case by (simp add: c Cons.IH split_beta)
qed

section \<open>Theorems\<close>

text \<open>
  C1. For every pair of numbers, \<open>updateStickyOffset\<close> sets the height of the offset to
  the given height and its top to the minimum of the given top and the height, so the
  top never exceeds the height afterwards. In particular the update with (30, 20)
  yields top 20 and height 20, and the update with (5, 20) yields top 5 and height 20.
\<close>

theorem updateStickyOffset_clamps:
  "so_height (updateStickyOffset this t h) = h
   \<and> so_top (updateStickyOffset this t h) = min t h
   \<and> so_top (updateStickyOffset this t h) \<le> so_height (updateStickyOffset this t h)
   \<and> updateStickyOffset this 30 20 = \<lparr>so_top = 20, so_height = 20\<rparr>
   \<and> updateStickyOffset this 5 20 = \<lparr>so_top = 5, so_height = 20\<rparr>"
  by (simp add: updateStickyOffset_def Let_def)

theorem updateStickyOffset_clamps_witness:
  "so_top (updateStickyOffset stickyOffset_init 30 20) = 20
   \<and> so_height (updateStickyOffset stickyOffset_init 30 20) = 20
   \<and> so_top (updateStickyOffset stickyOffset_init 7 3) \<le> so_height (updateStickyOffset stickyOffset_init 7 3)"
  using updateStickyOffset_clamps [of stickyOffset_init 30 20]
    updateStickyOffset_clamps [of stickyOffset_init 7 3]
  by simp

text \<open>
  A container top of 0.4 lies strictly above the offset top 0, but it rounds to 0: the
  element is sticky without a container, with a container, and with a container under
  the flow policy.
\<close>

theorem isSticky_unrounded_top_counterexample:
  "r_top (mkRect (4 / 10) 500 500) > offsetTop (Sticky_new defaultProps None)
   \<and> isSticky (Sticky_new defaultProps None)
        (Some (mkRect 0 50 50)) (Some (mkRect (4 / 10) 500 500)) \<lparr>dim_height = 800\<rparr>
   \<and> isSticky (Sticky_new (defaultProps\<lparr>container := Some (Elem 1)\<rparr>) None)
        (Some (mkRect 0 50 50)) (Some (mkRect (4 / 10) 500 500)) \<lparr>dim_height = 800\<rparr>
   \<and> isSticky (Sticky_new (defaultProps\<lparr>container := Some (Elem 1), overflowScroll := Flow\<rparr>) None)
        (Some (mkRect 0 50 50)) (Some (mkRect (4 / 10) 500 500)) \<lparr>dim_height = 800\<rparr>"
  by (simp add: eval_defs)

text \<open>
  C2, amended. For every container rectangle whose rounded top is strictly greater than
  the offset top (the top of the group offset plus \<open>defaultOffsetTop\<close>), \<open>isSticky\<close> is
  false: for every instance, so with and without the flow policy and with and without a
  container, and for every sticky rectangle and every dimensions.
\<close>

theorem isSticky_false_above_offsetTop:
  "Math_round (r_top cr) > offsetTop this \<Longrightarrow> \<not> isSticky this rect (Some cr) dimensions"
  by (simp add: isSticky_def or0_def)

theorem isSticky_false_above_offsetTop_witness:
  "Math_round (r_top (mkRect 30 500 470))
      > offsetTop (Sticky_new (defaultProps\<lparr>defaultOffsetTop := 20\<rparr>) None)
   \<and> \<not> isSticky (Sticky_new (defaultProps\<lparr>defaultOffsetTop := 20\<rparr>) None)
        (Some (mkRect 0 50 50)) (Some (mkRect 30 500 470)) \<lparr>dim_height = 800\<rparr>"
proof -
  have h: "Math_round (r_top (mkRect 30 500 470))
      > offsetTop (Sticky_new (defaultProps\<lparr>defaultOffsetTop := 20\<rparr>) None)"
    by (simp add: eval_defs)
  from isSticky_false_above_offsetTop [OF h] h show ?thesis by blast
qed

text \<open>
  Under the flow policy a sticky rectangle of height 100.4 is taller than dimensions of
  height 100, but its height rounds to 100: the applied overflow scroll is \<open>end\<close>.
\<close>

theorem getOverflowScrollType_unrounded_height_counterexample:
  "overflowScroll (props (Sticky_new (defaultProps\<lparr>overflowScroll := Flow\<rparr>) None)) = Flow
   \<and> r_height (mkRect 0 (1004 / 10) (1004 / 10)) > dim_height \<lparr>dim_height = 100\<rparr>
   \<and> getOverflowScrollType (Sticky_new (defaultProps\<lparr>overflowScroll := Flow\<rparr>) None)
        (Some (mkRect 0 (1004 / 10) (1004 / 10))) \<lparr>dim_height = 100\<rparr> = End"
  by (simp add: eval_defs)

text \<open>
  C3, amended. For every sticky rectangle and dimensions, the applied overflow scroll is
  \<open>flow\<close> if and only if the configured policy is flow and the rounded height of the
  sticky rectangle (0 for an absent rectangle) is greater than the height of the
  dimensions; in every other case it is \<open>end\<close>.
\<close>

theorem getOverflowScrollType_flow_iff:
  "(getOverflowScrollType this rectSticky dimensions = Flow)
     = (overflowScroll (props this) = Flow
        \<and> Math_round (or0 (map_option r_height rectSticky)) > dim_height dimensions)
   \<and> (getOverflowScrollType this rectSticky dimensions = End)
     = (\<not> (overflowScroll (props this) = Flow
        \<and> Math_round (or0 (map_option r_height rectSticky)) > dim_height dimensions))
   \<and> (getOverflowScrollType this (Some r) dimensions = Flow)
     = (overflowScroll (props this) = Flow \<and> Math_round (r_height r) > dim_height dimensions)"
  by (auto simp add: getOverflowScrollType_def calcHeightDifference_def or0_def)

theorem getOverflowScrollType_flow_iff_witness:
  "getOverflowScrollType (Sticky_new (defaultProps\<lparr>overflowScroll := Flow\<rparr>) None)
      (Some (mkRect 0 1000 1000)) \<lparr>dim_height = 800\<rparr> = Flow
   \<and> getOverflowScrollType (Sticky_new (defaultProps\<lparr>overflowScroll := Flow\<rparr>) None)
      (Some (mkRect 0 700 700)) \<lparr>dim_height = 800\<rparr> = End
   \<and> getOverflowScrollType (Sticky_new defaultProps None)
      (Some (mkRect 0 1000 1000)) \<lparr>dim_height = 800\<rparr> = End"
  using getOverflowScrollType_flow_iff
      [of "Sticky_new (defaultProps\<lparr>overflowScroll := Flow\<rparr>) None" "Some (mkRect 0 1000 1000)"
        "\<lparr>dim_height = 800\<rparr>"]
    getOverflowScrollType_flow_iff
      [of "Sticky_new (defaultProps\<lparr>overflowScroll := Flow\<rparr>) None" "Some (mkRect 0 700 700)"
        "\<lparr>dim_height = 800\<rparr>"]
    getOverflowScrollType_flow_iff
      [of "Sticky_new defaultProps None" "Some (mkRect 0 1000 1000)" "\<lparr>dim_height = 800\<rparr>"]
  by (simp add: Math_round_def or0_def Sticky_new_def defaultProps_def mkRect_def)

text \<open>
  C4. \<open>shouldUseNativeSticky\<close> returns true if and only if \<open>experimentalNative\<close> is
  set, the platform supports \<open>position: sticky\<close>, the applied overflow scroll is
  \<open>end\<close> and the top of the group offset is zero. The structural check does not
  affect the value: it is the same for every placeholder element, every state of the
  warning flag and in a development as in a production build.
\<close>

theorem shouldUseNativeSticky_iff:
  "fst (shouldUseNativeSticky env this a)
     = (experimentalNative (props this) \<and> supportsPositionSticky env \<and> a = End
        \<and> so_top (stickyOffset (props this)) = 0)
   \<and> fst (shouldUseNativeSticky (env\<lparr>development := dv\<rparr>)
            (this\<lparr>placeholderRef := el, nativeStickyThrewOnce := fl\<rparr>) a)
     = fst (shouldUseNativeSticky env this a)"
  by (simp add: shouldUseNativeSticky_def)

theorem shouldUseNativeSticky_iff_witness:
  "fst (shouldUseNativeSticky devEnv
          (Sticky_new (defaultProps\<lparr>experimentalNative := True, container := Some (Elem 1)\<rparr>)
             (Some \<lparr>parentElement = Some 2\<rparr>)) End)
   \<and> \<not> fst (shouldUseNativeSticky devEnv
          (Sticky_new (defaultProps\<lparr>experimentalNative := True, container := Some (Elem 1)\<rparr>)
             (Some \<lparr>parentElement = Some 2\<rparr>)) Flow)"
  using shouldUseNativeSticky_iff
      [of devEnv "Sticky_new (defaultProps\<lparr>experimentalNative := True, container := Some (Elem 1)\<rparr>)
             (Some \<lparr>parentElement = Some 2\<rparr>)" End]
    shouldUseNativeSticky_iff
      [of devEnv "Sticky_new (defaultProps\<lparr>experimentalNative := True, container := Some (Elem 1)\<rparr>)
             (Some \<lparr>parentElement = Some 2\<rparr>)" Flow]
  by (simp add: Sticky_new_def defaultProps_def devEnv_def)

text \<open>
  Two sticky elements without flow. In the first the group offset is (top 0, height 10)
  and \<open>defaultOffsetTop\<close> is 5, so the offset top 5 lies strictly between 0 and the
  group height, yet the style is fixed at 5. In the second the group offset is
  (top 5, height 10) and the scroll has \<open>yTurn\<close> 0.4: the style is absolute with top 5,
  where the unrounded sum (0.4 - 0 + 0) - 0 + 5 is 5.4.
\<close>

theorem calcPositionStyles_partial_header_counterexample:
  "isSticky (Sticky_new (defaultProps\<lparr>stickyOffset := \<lparr>so_top = 0, so_height = 10\<rparr>,
                                      defaultOffsetTop := 5\<rparr>) None)
       (Some (mkRect 0 50 50)) (Some (mkRect 0 500 500)) \<lparr>dim_height = 800\<rparr>
   \<and> getOverflowScrollType (Sticky_new (defaultProps\<lparr>stickyOffset := \<lparr>so_top = 0, so_height = 10\<rparr>,
                                      defaultOffsetTop := 5\<rparr>) None)
       (Some (mkRect 0 50 50)) \<lparr>dim_height = 800\<rparr> = End
   \<and> 0 < offsetTop (Sticky_new (defaultProps\<lparr>stickyOffset := \<lparr>so_top = 0, so_height = 10\<rparr>,
                                      defaultOffsetTop := 5\<rparr>) None)
   \<and> offsetTop (Sticky_new (defaultProps\<lparr>stickyOffset := \<lparr>so_top = 0, so_height = 10\<rparr>,
                                      defaultOffsetTop := 5\<rparr>) None) < 10
   \<and> calcPositionStyles (Sticky_new (defaultProps\<lparr>stickyOffset := \<lparr>so_top = 0, so_height = 10\<rparr>,
                                      defaultOffsetTop := 5\<rparr>) None)
       (Some (mkRect 0 50 50)) (Some (mkRect 0 500 500)) (mkScroll 0 0 0 False True)
       \<lparr>dim_height = 800\<rparr>
       = Inr (mkStyle Fixed 5)
   \<and> isSticky (Sticky_new (defaultProps\<lparr>stickyOffset := \<lparr>so_top = 5, so_height = 10\<rparr>\<rparr>) None)
       (Some (mkRect 0 50 50)) (Some (mkRect 0 500 500)) \<lparr>dim_height = 800\<rparr>
   \<and> getOverflowScrollType (Sticky_new (defaultProps\<lparr>stickyOffset := \<lparr>so_top = 5, so_height = 10\<rparr>\<rparr>) None)
       (Some (mkRect 0 50 50)) \<lparr>dim_height = 800\<rparr> = End
   \<and> calcPositionStyles (Sticky_new (defaultProps\<lparr>stickyOffset := \<lparr>so_top = 5, so_height = 10\<rparr>\<rparr>) None)
       (Some (mkRect 0 50 50)) (Some (mkRect 0 500 500)) (mkScroll 0 (4 / 10) 0 False True)
       \<lparr>dim_height = 800\<rparr>
       = Inr (mkStyle Absolute 5)
   \<and> (4 / 10 - 0 + 0) - Math_round 0
       + offsetTop (Sticky_new (defaultProps\<lparr>stickyOffset := \<lparr>so_top = 5, so_height = 10\<rparr>\<rparr>) None)
       = 54 / 10"
  by (simp add: eval_defs calcPositionStyles_def mkStyle_def)

text \<open>
  C5, amended. When the element is sticky and the applied overflow scroll is not flow
  (the container rectangle being measured): if the top of the group offset lies strictly
  between 0 and the height of the group offset, the style is absolute with top
  \<open>Math.round(scroll.yTurn - scroll.y + scroll.yDTurn) - Math.round(containerRect.top) + offsetTop\<close>;
  otherwise the style is fixed with top \<open>offsetTop\<close>.
\<close>

theorem calcPositionStyles_sticky_not_flow:
  "isSticky this rectSticky (Some cr) dimensions \<Longrightarrow>
   getOverflowScrollType this rectSticky dimensions \<noteq> Flow \<Longrightarrow>
   calcPositionStyles this rectSticky (Some cr) scroll dimensions =
     (if 0 < so_top (stickyOffset (props this))
         \<and> so_top (stickyOffset (props this)) < so_height (stickyOffset (props this))
      then Inr (mkStyle Absolute
             (Math_round (yTurn scroll - y scroll + yDTurn scroll) - Math_round (r_top cr)
                + offsetTop this))
      else Inr (mkStyle Fixed (offsetTop this)))"
  by (simp add: calcPositionStyles_def Let_def)

theorem calcPositionStyles_sticky_not_flow_witness:
  "isSticky (Sticky_new (defaultProps\<lparr>stickyOffset := \<lparr>so_top = 5, so_height = 10\<rparr>\<rparr>) None)
       (Some (mkRect 0 50 50)) (Some (mkRect (- 20) 500 520)) \<lparr>dim_height = 800\<rparr>
   \<and> getOverflowScrollType (Sticky_new (defaultProps\<lparr>stickyOffset := \<lparr>so_top = 5, so_height = 10\<rparr>\<rparr>) None)
       (Some (mkRect 0 50 50)) \<lparr>dim_height = 800\<rparr> \<noteq> Flow
   \<and> calcPositionStyles (Sticky_new (defaultProps\<lparr>stickyOffset := \<lparr>so_top = 5, so_height = 10\<rparr>\<rparr>) None)
       (Some (mkRect 0 50 50)) (Some (mkRect (- 20) 500 520)) (mkScroll 80 100 3 False True)
       \<lparr>dim_height = 800\<rparr>
       = Inr (mkStyle Absolute 48)"
proof -
  let ?t = "Sticky_new (defaultProps\<lparr>stickyOffset := \<lparr>so_top = 5, so_height = 10\<rparr>\<rparr>) None"
  have s: "isSticky ?t (Some (mkRect 0 50 50)) (Some (mkRect (- 20) 500 520)) \<lparr>dim_height = 800\<rparr>"
    by (simp add: eval_defs)
  have f: "getOverflowScrollType ?t (Some (mkRect 0 50 50)) \<lparr>dim_height = 800\<rparr> \<noteq> Flow"
    by (simp add: eval_defs)
  from calcPositionStyles_sticky_not_flow [OF s f, of "mkScroll 80 100 3 False True"]
  have "calcPositionStyles ?t (Some (mkRect 0 50 50)) (Some (mkRect (- 20) 500 520))
          (mkScroll 80 100 3 False True) \<lparr>dim_height = 800\<rparr> = Inr (mkStyle Absolute 48)"
    by (simp add: eval_defs)
  with s f show ?thesis by blast
qed

text \<open>
  With the default props and both rectangles absent, \<open>isNearToViewport\<close> and
  \<open>isSticky\<close> are true, not false. With a container whose rectangle lies above the
  viewport, \<open>isDockedToBottom\<close> is true for a zero-valued sticky rectangle and false
  for an absent one: it does not treat the absent rectangle as zero-valued.
\<close>

theorem absent_rect_counterexample:
  "isNearToViewport None
   \<and> isSticky (Sticky_new defaultProps None) None None \<lparr>dim_height = 800\<rparr>
   \<and> isSticky (Sticky_new (defaultProps\<lparr>container := Some (Elem 1)\<rparr>) None) None None
        \<lparr>dim_height = 800\<rparr>
   \<and> isDockedToBottom (Sticky_new (defaultProps\<lparr>container := Some (Elem 1)\<rparr>) None)
        (Some zeroRect) (Some (mkRect (- 100) (- 10) 90)) \<lparr>dim_height = 800\<rparr>
   \<and> isDockedToBottom (Sticky_new (defaultProps\<lparr>container := Some (Elem 1)\<rparr>) None)
        None (Some (mkRect (- 100) (- 10) 90)) \<lparr>dim_height = 800\<rparr> = False"
  by (simp add: eval_defs)

text \<open>
  C6, amended. None of the three predicates fails on an absent rectangle: each is a
  total function of optional rectangles. \<open>isSticky\<close> and \<open>isNearToViewport\<close> give
  for an absent sticky or container rectangle the value they give for the zero-valued
  rectangle (which can be true), and \<open>isDockedToBottom\<close> is false whenever the sticky
  rectangle or the container rectangle is absent.
\<close>

theorem absent_rect_defaults:
  "isSticky this None containerRect dimensions = isSticky this (Some zeroRect) containerRect dimensions
   \<and> isSticky this rect None dimensions = isSticky this rect (Some zeroRect) dimensions
   \<and> isNearToViewport None = isNearToViewport (Some zeroRect)
   \<and> isDockedToBottom this None containerRect dimensions = False
   \<and> isDockedToBottom this rect None dimensions = False"
  by (simp add: isSticky_def isNearToViewport_def isDockedToBottom_def zeroRect_def or0_def
      split: option.splits)

theorem absent_rect_defaults_witness:
  "isSticky (Sticky_new (defaultProps\<lparr>container := Some (Elem 1)\<rparr>) None)
       None (Some (mkRect (- 100) (- 10) 90)) \<lparr>dim_height = 800\<rparr> = False
   \<and> isSticky (Sticky_new (defaultProps\<lparr>defaultOffsetTop := - 1\<rparr>) None)
       (Some (mkRect 0 50 50)) None \<lparr>dim_height = 800\<rparr> = False
   \<and> isNearToViewport None = True
   \<and> isDockedToBottom (Sticky_new (defaultProps\<lparr>container := Some (Elem 1)\<rparr>) None)
       None (Some (mkRect (- 100) (- 10) 90)) \<lparr>dim_height = 800\<rparr> = False"
  using absent_rect_defaults
      [of "Sticky_new (defaultProps\<lparr>container := Some (Elem 1)\<rparr>) None"
        "Some (mkRect (- 100) (- 10) 90)" "\<lparr>dim_height = 800\<rparr>"]
    absent_rect_defaults
      [of "Sticky_new (defaultProps\<lparr>defaultOffsetTop := - 1\<rparr>) None" _ _ "Some (mkRect 0 50 50)"]
  by (simp add: eval_defs)

text \<open>
  C7. The position styles are a function of the sticky rectangle, the container
  rectangle, the scroll, the dimensions, the props (the configuration and the group
  offset) and the platform constants alone: two instances with the same props, whatever
  their placeholder element and warning flag, get equal results from
  \<open>calcPositionStyles\<close> and from \<open>getStickyStyles\<close>, also when
  \<open>shouldUseNativeSticky\<close> has run on the instance between two evaluations; equal
  styles agree on \<open>position\<close>, \<open>top\<close>, \<open>willChange\<close> and \<open>transform\<close>.
\<close>

theorem getStickyStyles_deterministic:
  assumes "props this' = props this"
  shows "calcPositionStyles this' rect containerRect scroll dimensions
           = calcPositionStyles this rect containerRect scroll dimensions
         \<and> getStickyStyles env this' rect containerRect scroll dimensions
           = getStickyStyles env this rect containerRect scroll dimensions
         \<and> getStickyStyles env (fst (snd (shouldUseNativeSticky env this a)))
             rect containerRect scroll dimensions
           = getStickyStyles env this rect containerRect scroll dimensions
         \<and> (\<forall>s1 s2. getStickyStyles env this rect containerRect scroll dimensions = Inr s1
              \<and> getStickyStyles env this' rect containerRect scroll dimensions = Inr s2
              \<longrightarrow> position s1 = position s2 \<and> ps_top s1 = ps_top s2
                  \<and> willChange s1 = willChange s2 \<and> transform s1 = transform s2)"
  using calcPositionStyles_props [OF assms] getStickyStyles_props [OF assms]
    getStickyStyles_props [OF shouldUseNativeSticky_props]
  by auto

theorem getStickyStyles_deterministic_witness:
  "getStickyStyles devEnv
       \<lparr>props = defaultProps, placeholderRef = Some \<lparr>parentElement = Some 2\<rparr>,
        nativeStickyThrewOnce = True\<rparr>
       (Some (mkRect 0 50 50)) (Some (mkRect 0 500 500)) (mkScroll 0 0 0 False True)
       \<lparr>dim_height = 800\<rparr>
     = getStickyStyles devEnv (Sticky_new defaultProps None)
       (Some (mkRect 0 50 50)) (Some (mkRect 0 500 500)) (mkScroll 0 0 0 False True)
       \<lparr>dim_height = 800\<rparr>
   \<and> getStickyStyles devEnv (Sticky_new defaultProps None)
       (Some (mkRect 0 50 50)) (Some (mkRect 0 500 500)) (mkScroll 0 0 0 False True)
       \<lparr>dim_height = 800\<rparr>
     = Inr \<lparr>position = Fixed, ps_top = 0, willChange = Some ''position, top'', transform = None\<rparr>"
proof -
  have h: "props \<lparr>props = defaultProps, placeholderRef = Some \<lparr>parentElement = Some 2\<rparr>,
        nativeStickyThrewOnce = True\<rparr> = props (Sticky_new defaultProps None)"
    by (simp add: Sticky_new_def)
  have v: "getStickyStyles devEnv (Sticky_new defaultProps None)
       (Some (mkRect 0 50 50)) (Some (mkRect 0 500 500)) (mkScroll 0 0 0 False True)
       \<lparr>dim_height = 800\<rparr>
     = Inr \<lparr>position = Fixed, ps_top = 0, willChange = Some ''position, top'', transform = None\<rparr>"
    by (simp add: eval_defs getStickyStyles_def calcPositionStyles_def mkStyle_def)
  from getStickyStyles_deterministic [OF h] v show ?thesis by blast
qed

text \<open>
  C8. Over every sequence of calls of \<open>shouldUseNativeSticky\<close> on one instance,
  starting from its construction and with any props and placeholder element at each
  call, the warning is emitted at most once; every message emitted is the warning; and
  once it has been emitted, no later call of the instance emits it again.
\<close>

theorem warning_at_most_once:
  "length (fst (decideAll env (Sticky_new p el) cs)) \<le> 1
   \<and> set (fst (decideAll env (Sticky_new p el) cs)) \<subseteq> {nativeStickyWarning}
   \<and> (fst (decideAll env (Sticky_new p el) cs) \<noteq> [] \<longrightarrow>
        fst (decideAll env (Sticky_new p el) (cs @ cs')) = fst (decideAll env (Sticky_new p el) cs))"
proof -
  let ?s = "Sticky_new p el"
  note once = decideAll_at_most_once [of env ?s cs]
  have "fst (decideAll env ?s (cs @ cs')) = fst (decideAll env ?s cs)"
    if "fst (decideAll env ?s cs) \<noteq> []"
  proof -
    from that once have "nativeStickyThrewOnce (snd (decideAll env ?s cs))" by blast
    from decideAll_warned [OF this, of env cs'] show ?thesis
      by (simp add: decideAll_append)
  qed
  with once show ?thesis by blast
qed

theorem warning_at_most_once_witness:
  "fst (decideAll devEnv (Sticky_new defaultProps None)
         [(defaultProps\<lparr>experimentalNative := True, container := Some (Elem 1)\<rparr>,
           Some \<lparr>parentElement = Some 2\<rparr>, End)])
     = [nativeStickyWarning]
   \<and> fst (decideAll devEnv (Sticky_new defaultProps None)
         ([(defaultProps\<lparr>experimentalNative := True, container := Some (Elem 1)\<rparr>,
            Some \<lparr>parentElement = Some 2\<rparr>, End)]
          @ [(defaultProps\<lparr>experimentalNative := True, container := Some (Elem 1)\<rparr>,
            Some \<lparr>parentElement = Some 3\<rparr>, End),
           (defaultProps\<lparr>experimentalNative := True, container := Some (Elem 1)\<rparr>,
            Some \<lparr>parentElement = Some 2\<rparr>, End)]))
     = [nativeStickyWarning]"
proof -
  let ?c = "(defaultProps\<lparr>experimentalNative := True, container := Some (Elem 1)\<rparr>,
           Some \<lparr>parentElement = Some 2\<rparr>, End)"
  let ?cs' = "[(defaultProps\<lparr>experimentalNative := True, container := Some (Elem 1)\<rparr>,
            Some \<lparr>parentElement = Some 3\<rparr>, End),
           (defaultProps\<lparr>experimentalNative := True, container := Some (Elem 1)\<rparr>,
            Some \<lparr>parentElement = Some 2\<rparr>, End)]"
  have v: "fst (decideAll devEnv (Sticky_new defaultProps None) [?c]) = [nativeStickyWarning]"
    by (simp add: shouldUseNativeSticky_def placeholderParent_def containerCurrent_def
        Sticky_new_def defaultProps_def devEnv_def)
  then have ne: "fst (decideAll devEnv (Sticky_new defaultProps None) [?c]) \<noteq> []"
    by simp
  from warning_at_most_once [of devEnv defaultProps None "[?c]" ?cs'] ne
  have e: "fst (decideAll devEnv (Sticky_new defaultProps None) ([?c] @ ?cs'))
             = fst (decideAll devEnv (Sticky_new defaultProps None) [?c])"
    by blast
  show ?thesis by (rule conjI [OF v trans [OF e v]])
qed

text \<open>
  C9. For every sticky rectangle, container rectangle, dimensions and instance,
  \<open>isSticky\<close> and \<open>isDockedToBottom\<close> are not both true: \<open>isDockedToBottom\<close>
  needs a container and the rounded container bottom minus the offset top below the
  effective height, and \<open>isSticky\<close> with a container needs that comparison to fail.
\<close>

theorem isSticky_isDockedToBottom_exclusive:
  "\<not> (isSticky this rect containerRect dimensions
        \<and> isDockedToBottom this rect containerRect dimensions)
   \<and> (isDockedToBottom this (Some r) (Some cr) dimensions \<longrightarrow>
        hasContainer this
        \<and> Math_round (r_bottom cr) - offsetTop this
            < (if overflowScroll (props this) = Flow
               then min (r_height r) (dim_height dimensions) else r_height r))
   \<and> (hasContainer this \<and> isSticky this (Some r) (Some cr) dimensions \<longrightarrow>
        \<not> Math_round (r_bottom cr) - offsetTop this
            < (if overflowScroll (props this) = Flow
               then min (r_height r) (dim_height dimensions) else r_height r))"
  by (auto simp add: isSticky_def isDockedToBottom_def or0_def Let_def
      split: option.splits if_splits)

theorem isSticky_isDockedToBottom_exclusive_witness:
  "isDockedToBottom (Sticky_new (defaultProps\<lparr>container := Some (Elem 1)\<rparr>) None)
       (Some (mkRect (- 20) 40 60)) (Some (mkRect (- 50) 40 90)) \<lparr>dim_height = 800\<rparr>
   \<and> \<not> isSticky (Sticky_new (defaultProps\<lparr>container := Some (Elem 1)\<rparr>) None)
       (Some (mkRect (- 20) 40 60)) (Some (mkRect (- 50) 40 90)) \<lparr>dim_height = 800\<rparr>"
proof -
  have d: "isDockedToBottom (Sticky_new (defaultProps\<lparr>container := Some (Elem 1)\<rparr>) None)
       (Some (mkRect (- 20) 40 60)) (Some (mkRect (- 50) 40 90)) \<lparr>dim_height = 800\<rparr>"
    by (simp add: eval_defs)
  with isSticky_isDockedToBottom_exclusive
         [of "Sticky_new (defaultProps\<lparr>container := Some (Elem 1)\<rparr>) None"
           "Some (mkRect (- 20) 40 60)" "Some (mkRect (- 50) 40 90)" "\<lparr>dim_height = 800\<rparr>"]
  show ?thesis by blast
qed

text \<open>
  C10. In the scroll-tracking branch of \<open>calcOverflowScrollFlowStickyStyles\<close> (the
  first two conditions fail and the third holds) the style is absolute and its top,
  computed as \<open>|scrollY - stickyTop + (containerTop - scrollY)|\<close>, equals
  \<open>|containerTop - stickyTop|\<close>: the scroll offset cancels, and the top depends only on
  the rounded container top and the rounded sticky top.
\<close>

theorem flow_tracking_top_cancels_scroll:
  "\<not> flowResets this rectSticky cr scroll dimensions \<Longrightarrow>
   \<not> flowPinsBottom rectSticky scroll dimensions \<Longrightarrow>
   flowTracks this rectSticky cr scroll \<Longrightarrow>
   calcOverflowScrollFlowStickyStyles this rectSticky (Some cr) scroll dimensions
     = Inr (mkStyle Absolute
         \<bar>Math_round (y scroll) - Math_round (or0 (map_option r_top rectSticky))
            + (Math_round (r_top cr) - Math_round (y scroll))\<bar>)
   \<and> \<bar>Math_round (y scroll) - Math_round (or0 (map_option r_top rectSticky))
            + (Math_round (r_top cr) - Math_round (y scroll))\<bar>
     = \<bar>Math_round (r_top cr) - Math_round (or0 (map_option r_top rectSticky))\<bar>"
  by (simp add: calcOverflowScrollFlowStickyStyles_def Let_def)

theorem flow_tracking_top_cancels_scroll_witness:
  "\<not> flowResets (Sticky_new (defaultProps\<lparr>container := Some (Elem 1), overflowScroll := Flow\<rparr>) None)
       (Some (mkRect (- 50) 950 1000)) (mkRect (- 100) 1900 2000) (mkScroll 300 250 0 False True)
       \<lparr>dim_height = 800\<rparr>
   \<and> \<not> flowPinsBottom (Some (mkRect (- 50) 950 1000)) (mkScroll 300 250 0 False True)
       \<lparr>dim_height = 800\<rparr>
   \<and> flowTracks (Sticky_new (defaultProps\<lparr>container := Some (Elem 1), overflowScroll := Flow\<rparr>) None)
       (Some (mkRect (- 50) 950 1000)) (mkRect (- 100) 1900 2000) (mkScroll 300 250 0 False True)
   \<and> calcOverflowScrollFlowStickyStyles
       (Sticky_new (defaultProps\<lparr>container := Some (Elem 1), overflowScroll := Flow\<rparr>) None)
       (Some (mkRect (- 50) 950 1000)) (Some (mkRect (- 100) 1900 2000))
       (mkScroll 300 250 0 False True) \<lparr>dim_height = 800\<rparr>
     = Inr (mkStyle Absolute 50)"
proof -
  let ?t = "Sticky_new (defaultProps\<lparr>container := Some (Elem 1), overflowScroll := Flow\<rparr>) None"
  let ?rs = "Some (mkRect (- 50) 950 1000)"
  let ?cr = "mkRect (- 100) 1900 2000"
  let ?sc = "mkScroll 300 250 0 False True"
  let ?d = "\<lparr>dim_height = 800\<rparr>"
  have a: "\<not> flowResets ?t ?rs ?cr ?sc ?d"
    by (simp add: flowResets_def isStickyBottomReached_def isTurnPointWithinContainer_def
        isTurnPointBeforeContainer_def isTurnPointAfterContainer_def containerTopOffset_def
        eval_defs)
  have b: "\<not> flowPinsBottom ?rs ?sc ?d"
    by (simp add: flowPinsBottom_def isStickyBottomReached_def eval_defs)
  have c: "flowTracks ?t ?rs ?cr ?sc"
    by (simp add: flowTracks_def isTurnPointWithinContainer_def
        isTurnPointBeforeContainer_def isTurnPointAfterContainer_def containerTopOffset_def
        eval_defs)
  from flow_tracking_top_cancels_scroll [OF a b c]
  have "calcOverflowScrollFlowStickyStyles ?t ?rs (Some ?cr) ?sc ?d = Inr (mkStyle Absolute 50)"
    by (simp add: eval_defs)
  with a b c show ?thesis by blast
qed

end
